theory Spec2Isabelle
  imports
    Complex_Main
    "HOL-Library.Multiset"
    "HOL-Library.Char_ord"
    "HOL-Library.List_Lexorder"
    "HOL-Library.Product_Lexorder"
    "HOL-Library.Sublist"
begin

section \<open>Tables\<close>

text \<open>
  The notebook \<^verbatim>\<open>spotify_analysis.ipynb\<close> works on pandas data frames. A frame is
  modelled by its column labels and its rows, every row holding one cell per label, in
  the order of the labels. A cell is a missing value (\<^verbatim>\<open>NaN\<close>, also what a JSON
  \<^verbatim>\<open>null\<close> becomes), a string, an integer or a float. Floats are idealised as
  rationals: sums and quotients are exact, so nothing below speaks about the rounding
  error of 64-bit floating point.

  Whatever makes the notebook stop is a value of \<open>error\<close>, and a step that can stop
  returns \<open>error + result\<close>.
\<close>

datatype error = KeyError string | ValueError | TypeError | OSError

datatype cell = NaN | Str string | Int64 int | Float64 rat

record dataframe =
  columns :: "string list"
  rows :: "cell list list"

text \<open>The position of a label among the columns (the first one, when it occurs twice).\<close>

fun get_loc :: "string list \<Rightarrow> string \<Rightarrow> nat option" where
  "get_loc [] c = None"
| "get_loc (x # xs) c = (if x = c then Some 0 else map_option Suc (get_loc xs c))"

text \<open>\<^verbatim>\<open>df[c]\<close>: the cells of one column, or \<^verbatim>\<open>KeyError\<close>.\<close>

definition getitem :: "dataframe \<Rightarrow> string \<Rightarrow> error + cell list" where
  "getitem df c =
     (case get_loc (columns df) c of
        None \<Rightarrow> Inl (KeyError c)
      | Some i \<Rightarrow> Inr (map (\<lambda>r. r ! i) (rows df)))"




section \<open>Loader: \<^verbatim>\<open>read_jsons_to_df\<close>\<close>

text \<open>
  The directory listing (\<^verbatim>\<open>os.listdir\<close>) and the parser (\<^verbatim>\<open>pd.read_json\<close>) are the
  environment of the loader and are passed in: the listing of a directory is a list of
  names in the order the file system gives them, the parser maps a path to a frame or
  to an error.
\<close>

definition endswith :: "string \<Rightarrow> string \<Rightarrow> bool" where
  "endswith f suf = suffix suf f"

definition path_join :: "string \<Rightarrow> string \<Rightarrow> string" where
  "path_join d f = (if d = [] \<or> last d = CHR ''/'' then d @ f else d @ ''/'' @ f)"

text \<open>
  The \<^verbatim>\<open>for filename in json_files\<close> loop: each file is parsed and appended to
  \<^verbatim>\<open>df_list\<close>; the first file that does not parse ends the run.
\<close>

fun read_each ::
  "(string \<Rightarrow> error + dataframe) \<Rightarrow> string \<Rightarrow> string list \<Rightarrow> dataframe list \<Rightarrow> error + dataframe list"
where
  "read_each pd_read_json data_dir_path [] df_list = Inr df_list"
| "read_each pd_read_json data_dir_path (filename # rest) df_list =
     (case pd_read_json (path_join data_dir_path filename) of
        Inl e \<Rightarrow> Inl e
      | Inr df \<Rightarrow> read_each pd_read_json data_dir_path rest (df_list @ [df]))"

text \<open>
  \<^verbatim>\<open>pd.concat(df_list, ignore_index=True)\<close>: an empty list raises \<^verbatim>\<open>ValueError\<close> (``No
  objects to concatenate''). Otherwise the columns are the union of the frames' columns
  in the order of their first appearance, every frame's rows are laid out on these
  columns (a column the frame lacks is filled with \<^verbatim>\<open>NaN\<close>), and the rows follow each
  other in the order of the list.
\<close>

definition union_columns :: "dataframe list \<Rightarrow> string list" where
  "union_columns dfs = rev (remdups (rev (concat (map columns dfs))))"

definition reindex :: "string list \<Rightarrow> dataframe \<Rightarrow> cell list list" where
  "reindex cols df =
     map (\<lambda>r. map (\<lambda>c. case get_loc (columns df) c of None \<Rightarrow> NaN | Some i \<Rightarrow> r ! i) cols)
       (rows df)"

definition pd_concat :: "dataframe list \<Rightarrow> error + dataframe" where
  "pd_concat dfs =
     (if dfs = [] then Inl ValueError
      else Inr \<lparr>columns = union_columns dfs,
                rows = concat (map (reindex (union_columns dfs)) dfs)\<rparr>)"

definition json_files_of :: "string list \<Rightarrow> string list" where
  "json_files_of names = filter (\<lambda>f. endswith f ''.json'') names"

definition read_jsons_to_df ::
  "(string \<Rightarrow> error + string list) \<Rightarrow> (string \<Rightarrow> error + dataframe) \<Rightarrow> string \<Rightarrow> error + dataframe"
where
  "read_jsons_to_df os_listdir pd_read_json data_dir_path =
     (case os_listdir data_dir_path of
        Inl e \<Rightarrow> Inl e
      | Inr names \<Rightarrow>
          (case read_each pd_read_json data_dir_path (json_files_of names) [] of
             Inl e \<Rightarrow> Inl e
           | Inr df_list \<Rightarrow> pd_concat df_list))"


section \<open>Enricher: durations and column names\<close>


text \<open>A step done cell by cell or row by row stops at the first cell or row that raises.\<close>

fun collect :: "(error + 'a) list \<Rightarrow> error + 'a list" where
  "collect [] = Inr []"
| "collect (x # xs) =
     (case x of
        Inl e \<Rightarrow> Inl e
      | Inr v \<Rightarrow> (case collect xs of Inl e \<Rightarrow> Inl e | Inr vs \<Rightarrow> Inr (v # vs)))"



text \<open>
  \<^verbatim>\<open>df.rename(columns={...}, inplace=True)\<close>. pandas' \<^verbatim>\<open>rename\<close> has a parameter
  \<^verbatim>\<open>errors\<close>: with \<^verbatim>\<open>'raise'\<close> a key of the mapping that is no column raises
  \<^verbatim>\<open>KeyError\<close>, with \<^verbatim>\<open>'ignore'\<close>, the default, such a key is skipped. Only the labels
  change; the cells stay where they are.
\<close>

datatype errors_arg = Ignore | Raise

definition rename ::
  "errors_arg \<Rightarrow> (string \<times> string) list \<Rightarrow> dataframe \<Rightarrow> error + dataframe"
where
  "rename errors mapper df =
     (case (errors, filter (\<lambda>k. k \<notin> set (columns df)) (map fst mapper)) of
        (Raise, k # ks) \<Rightarrow> Inl (KeyError k)
      | _ \<Rightarrow>
          Inr \<lparr>columns = map (\<lambda>c. case map_of mapper c of None \<Rightarrow> c | Some c' \<Rightarrow> c') (columns df),
               rows = rows df\<rparr>)"

text \<open>The notebook's call: three keys, \<^verbatim>\<open>errors\<close> left at its default.\<close>

definition rename_artist_album_song :: "dataframe \<Rightarrow> error + dataframe" where
  "rename_artist_album_song df =
     rename Ignore
       [(''master_metadata_album_artist_name'', ''artist''),
        (''master_metadata_album_album_name'', ''album''),
        (''master_metadata_track_name'', ''song'')] df"


section \<open>Aggregator\<close>

text \<open>
  A grouped frame: one row per group, the group's key cells (the frame's index; one cell
  per grouping column) and the three sums (its columns).
\<close>

record agg_row =
  gkey :: "cell list"
  mins_played :: rat
  hours_played :: rat
  days_played :: rat

text \<open>
  What \<^verbatim>\<open>sum\<close> adds for a cell: missing values are skipped (\<^verbatim>\<open>skipna\<close>), so a group of
  missing values only sums to 0. A string in a summed column raises.
\<close>

fun addend :: "cell \<Rightarrow> rat" where
  "addend NaN = 0"
| "addend (Int64 i) = of_int i"
| "addend (Float64 q) = q"
| "addend (Str s) = 0"

fun to_float :: "cell \<Rightarrow> error + rat" where
  "to_float (Str s) = Inl TypeError"
| "to_float c = Inr (addend c)"

definition loc :: "string list \<Rightarrow> string \<Rightarrow> error + nat" where
  "loc cols c = (case get_loc cols c of None \<Rightarrow> Inl (KeyError c) | Some i \<Rightarrow> Inr i)"

definition locs :: "string list \<Rightarrow> string list \<Rightarrow> error + nat list" where
  "locs cols keys = collect (map (loc cols) keys)"

text \<open>A row as the aggregation reads it: its key cells and its three addends.\<close>

type_synonym played = "cell list \<times> rat \<times> rat \<times> rat"

definition played_of :: "nat list \<Rightarrow> nat \<Rightarrow> nat \<Rightarrow> nat \<Rightarrow> cell list \<Rightarrow> error + played" where
  "played_of kis mi hi di r =
     (case to_float (r ! mi) of Inl e \<Rightarrow> Inl e | Inr m \<Rightarrow>
     (case to_float (r ! hi) of Inl e \<Rightarrow> Inl e | Inr h \<Rightarrow>
     (case to_float (r ! di) of Inl e \<Rightarrow> Inl e | Inr d \<Rightarrow>
        Inr (map (\<lambda>i. r ! i) kis, m, h, d))))"

text \<open>
  \<^verbatim>\<open>groupby\<close> is called with its defaults. \<^verbatim>\<open>dropna=True\<close>: a row with a missing value
  in a key column belongs to no group. \<^verbatim>\<open>sort=True\<close>: the groups come in ascending order
  of their keys (numbers by value, strings by code point, key lists lexicographically),
  not in the order the keys are met in the table.
\<close>

fun cell_enc :: "cell \<Rightarrow> nat \<times> rat \<times> string" where
  "cell_enc NaN = (0, 0, [])"
| "cell_enc (Int64 i) = (1, of_int i, [])"
| "cell_enc (Float64 q) = (1, q, [])"
| "cell_enc (Str s) = (2, 0, s)"

definition dropna :: "played list \<Rightarrow> played list" where
  "dropna ps = filter (\<lambda>p. NaN \<notin> set (fst p)) ps"

definition group_keys :: "played list \<Rightarrow> cell list list" where
  "group_keys ps = sort_key (map cell_enc) (remdups (map fst ps))"

definition group_sum :: "played list \<Rightarrow> cell list \<Rightarrow> agg_row" where
  "group_sum ps k =
     \<lparr>gkey = k,
      mins_played = sum_list (map (\<lambda>(k', m, h, d). m) (filter (\<lambda>p. fst p = k) ps)),
      hours_played = sum_list (map (\<lambda>(k', m, h, d). h) (filter (\<lambda>p. fst p = k) ps)),
      days_played = sum_list (map (\<lambda>(k', m, h, d). d) (filter (\<lambda>p. fst p = k) ps))\<rparr>"

text \<open>
  \<^verbatim>\<open>df.groupby(keys).agg({"mins_played": ["sum"], "hours_played": ["sum"],
  "days_played": ["sum"]}).set_axis([...], axis=1)\<close>
\<close>

definition groupby_sum :: "string list \<Rightarrow> dataframe \<Rightarrow> error + agg_row list" where
  "groupby_sum keys df =
     (case locs (columns df) keys of Inl e \<Rightarrow> Inl e | Inr kis \<Rightarrow>
     (case loc (columns df) ''mins_played'' of Inl e \<Rightarrow> Inl e | Inr mi \<Rightarrow>
     (case loc (columns df) ''hours_played'' of Inl e \<Rightarrow> Inl e | Inr hi \<Rightarrow>
     (case loc (columns df) ''days_played'' of Inl e \<Rightarrow> Inl e | Inr di \<Rightarrow>
     (case collect (map (played_of kis mi hi di) (rows df)) of Inl e \<Rightarrow> Inl e | Inr ps \<Rightarrow>
        Inr (map (group_sum (dropna ps)) (group_keys (dropna ps))))))))"

text \<open>
  \<^verbatim>\<open>.sort_values('mins_played', ascending=False)\<close> is called with the default
  \<^verbatim>\<open>kind='quicksort'\<close>. pandas promises that the result holds the same rows in
  non-increasing order of the column, and nothing about the order of rows with equal
  values (only \<^verbatim>\<open>'mergesort'\<close> and \<^verbatim>\<open>'stable'\<close> keep them in place). The algorithm is
  therefore a parameter \<open>kind\<close> of everything that sorts, and \<open>sorts_desc kind\<close> is what
  pandas promises of it.
\<close>

definition sorts_desc :: "(agg_row list \<Rightarrow> agg_row list) \<Rightarrow> bool" where
  "sorts_desc kind =
     (\<forall>xs. mset (kind xs) = mset xs \<and>
           sorted_wrt (\<lambda>a b. mins_played b \<le> mins_played a) (kind xs))"

text \<open>
  One such algorithm, an insertion sort, which keeps rows with equal values in place. It
  stands for the sort wherever an example is evaluated.
\<close>

definition insertion_desc :: "agg_row list \<Rightarrow> agg_row list" where
  "insertion_desc xs = sort_key (\<lambda>r. - mins_played r) xs"

text \<open>
  \<^verbatim>\<open>.round(2)\<close>: numpy rounds \<open>x\<close> to \<open>rint (x * 100) / 100\<close>, where \<open>rint\<close> is the nearest
  integer and, half way between two integers, the even one.
\<close>

definition rint :: "rat \<Rightarrow> int" where
  "rint x =
     (if x - of_int \<lfloor>x\<rfloor> < 1 / 2 then \<lfloor>x\<rfloor>
      else if 1 / 2 < x - of_int \<lfloor>x\<rfloor> then \<lfloor>x\<rfloor> + 1
      else if even \<lfloor>x\<rfloor> then \<lfloor>x\<rfloor> else \<lfloor>x\<rfloor> + 1)"

definition round2 :: "rat \<Rightarrow> rat" where
  "round2 x = of_int (rint (x * 100)) / 100"

definition round_frame :: "agg_row list \<Rightarrow> agg_row list" where
  "round_frame xs =
     map (\<lambda>r. \<lparr>gkey = gkey r,
               mins_played = round2 (mins_played r),
               hours_played = round2 (hours_played r),
               days_played = round2 (days_played r)\<rparr>) xs"

text \<open>
  The first statement of each ``top played'' cell (group, sum, sort) and the cell as a
  whole (the table is then replaced by its rounded copy), for any list of key columns.
\<close>

definition sum_sorted ::
  "(agg_row list \<Rightarrow> agg_row list) \<Rightarrow> string list \<Rightarrow> dataframe \<Rightarrow> error + agg_row list"
where
  "sum_sorted kind keys df =
     (case groupby_sum keys df of Inl e \<Rightarrow> Inl e | Inr g \<Rightarrow> Inr (kind g))"

definition list_time_by ::
  "(agg_row list \<Rightarrow> agg_row list) \<Rightarrow> string list \<Rightarrow> dataframe \<Rightarrow> error + agg_row list"
where
  "list_time_by kind keys df =
     (case sum_sorted kind keys df of Inl e \<Rightarrow> Inl e | Inr s \<Rightarrow> Inr (round_frame s))"

definition list_time_by_artist ::
  "(agg_row list \<Rightarrow> agg_row list) \<Rightarrow> dataframe \<Rightarrow> error + agg_row list"
where
  "list_time_by_artist kind df = list_time_by kind [''artist''] df"

definition list_time_by_album ::
  "(agg_row list \<Rightarrow> agg_row list) \<Rightarrow> dataframe \<Rightarrow> error + agg_row list"
where
  "list_time_by_album kind df = list_time_by kind [''album''] df"

definition list_time_by_song ::
  "(agg_row list \<Rightarrow> agg_row list) \<Rightarrow> dataframe \<Rightarrow> error + agg_row list"
where
  "list_time_by_song kind df = list_time_by kind [''song''] df"

text \<open>
  \<^verbatim>\<open>top_15_artists = list_time_by_artist.sort_values('mins_played',
  ascending=False).head(15)\<close>: the table sorted again is the rounded one.
\<close>

definition top_15_artists ::
  "(agg_row list \<Rightarrow> agg_row list) \<Rightarrow> dataframe \<Rightarrow> error + agg_row list"
where
  "top_15_artists kind df =
     (case list_time_by_artist kind df of Inl e \<Rightarrow> Inl e | Inr l \<Rightarrow> Inr (take 15 (kind l)))"

text \<open>
  \<^verbatim>\<open>filtered_df = df[df['artist'].isin(top_15_artists.index)]\<close>: the rows of the full
  table whose artist is a key of the fifteen rows.
\<close>

definition filtered_df ::
  "(agg_row list \<Rightarrow> agg_row list) \<Rightarrow> dataframe \<Rightarrow> error + dataframe"
where
  "filtered_df kind df =
     (case top_15_artists kind df of Inl e \<Rightarrow> Inl e | Inr top15 \<Rightarrow>
     (case loc (columns df) ''artist'' of Inl e \<Rightarrow> Inl e | Inr ai \<Rightarrow>
        Inr \<lparr>columns = columns df,
             rows = filter (\<lambda>r. [r ! ai] \<in> set (map gkey top15)) (rows df)\<rparr>))"

text \<open>
  \<^verbatim>\<open>list_time_by_month\<close>: the filtered table grouped by artist and year, summed, sorted
  and rounded. (\<^verbatim>\<open>reset_index\<close> then turns the two key cells into columns and the chart
  cell orders the rows by year; both keep the rows and their values.)
\<close>

definition list_time_by_month ::
  "(agg_row list \<Rightarrow> agg_row list) \<Rightarrow> dataframe \<Rightarrow> error + agg_row list"
where
  "list_time_by_month kind df =
     (case filtered_df kind df of Inl e \<Rightarrow> Inl e
      | Inr fdf \<Rightarrow> list_time_by kind [''artist'', ''Year''] fdf)"

text \<open>
  \<^verbatim>\<open>nunique_by_year = df.groupby('Year').agg({'artist': ['nunique']})
  .set_axis(['number_artists'], axis=1).reset_index()\<close>: one row per year, in ascending
  order of the year; \<^verbatim>\<open>nunique\<close> counts the distinct values of the group and, by its
  default \<^verbatim>\<open>dropna=True\<close>, leaves missing values out.
\<close>

definition nunique :: "cell list \<Rightarrow> nat" where
  "nunique vs = length (remdups (filter (\<lambda>v. v \<noteq> NaN) vs))"

definition nunique_by_year :: "dataframe \<Rightarrow> error + (cell \<times> nat) list" where
  "nunique_by_year df =
     (case loc (columns df) ''Year'' of Inl e \<Rightarrow> Inl e | Inr yi \<Rightarrow>
     (case loc (columns df) ''artist'' of Inl e \<Rightarrow> Inl e | Inr ai \<Rightarrow>
        Inr (map (\<lambda>y. (y, nunique (map (\<lambda>r. r ! ai) (filter (\<lambda>r. r ! yi = y) (rows df)))))
               (sort_key cell_enc (remdups (filter (\<lambda>y. y \<noteq> NaN) (map (\<lambda>r. r ! yi) (rows df))))))))"


section \<open>Notions used to state the properties\<close>


text \<open>The label a column carries after the rename step.\<close>

definition short_name :: "string \<Rightarrow> string" where
  "short_name c =
     (if c = ''master_metadata_album_artist_name'' then ''artist''
      else if c = ''master_metadata_album_album_name'' then ''album''
      else if c = ''master_metadata_track_name'' then ''song''
      else c)"

text \<open>What \<open>played_of\<close> returns when it returns.\<close>

definition proj :: "nat list \<Rightarrow> nat \<Rightarrow> nat \<Rightarrow> nat \<Rightarrow> cell list \<Rightarrow> played" where
  "proj kis mi hi di r =
     (map (\<lambda>i. r ! i) kis, addend (r ! mi), addend (r ! hi), addend (r ! di))"

text \<open>The table without the rows that have a missing value in one of the key columns.\<close>

definition dropna_rows :: "string list \<Rightarrow> dataframe \<Rightarrow> dataframe" where
  "dropna_rows keys df =
     (case locs (columns df) keys of
        Inl e \<Rightarrow> df
      | Inr kis \<Rightarrow>
          \<lparr>columns = columns df,
           rows = filter (\<lambda>r. NaN \<notin> set (map (\<lambda>i. r ! i) kis)) (rows df)\<rparr>)"


text \<open>
  The sum of column \<open>c\<close> over the rows of the table that have a value in column \<open>key\<close>,
  missing cells of \<open>c\<close> counting 0 as in pandas' \<^verbatim>\<open>sum\<close>.
\<close>

definition sum_where_present :: "string \<Rightarrow> string \<Rightarrow> dataframe \<Rightarrow> error + rat" where
  "sum_where_present key c df =
     (case loc (columns df) key of Inl e \<Rightarrow> Inl e | Inr ki \<Rightarrow>
     (case loc (columns df) c of Inl e \<Rightarrow> Inl e | Inr ci \<Rightarrow>
        Inr (\<Sum>r\<leftarrow>filter (\<lambda>r. r ! ki \<noteq> NaN) (rows df). addend (r ! ci))))"

text \<open>
  The sum of column \<open>c\<close> over the rows of the table whose cells in the columns \<open>keys\<close> are
  the cells \<open>k\<close>.
\<close>

definition sum_for_keys :: "string list \<Rightarrow> cell list \<Rightarrow> string \<Rightarrow> dataframe \<Rightarrow> error + rat" where
  "sum_for_keys keys k c df =
     (case locs (columns df) keys of Inl e \<Rightarrow> Inl e | Inr kis \<Rightarrow>
     (case loc (columns df) c of Inl e \<Rightarrow> Inl e | Inr ci \<Rightarrow>
        Inr (\<Sum>r\<leftarrow>filter (\<lambda>r. map (\<lambda>i. r ! i) kis = k) (rows df). addend (r ! ci))))"




section \<open>Example inputs\<close>

text \<open>
  Two directories: one without any \<^verbatim>\<open>.json\<close> file, one with two of them (the scenario
  of the specification: one play of X for 60000 ms, one play of Y for 120000 ms) and a
  file of another kind.
\<close>

definition listdir_no_json :: "string \<Rightarrow> error + string list" where
  "listdir_no_json d = Inr [''notes.txt'', ''history.jsonl'']"

definition listdir_two :: "string \<Rightarrow> error + string list" where
  "listdir_two d = Inr [''a.json'', ''notes.txt'', ''b.json'']"

definition file_a :: dataframe where
  "file_a =
     \<lparr>columns = [''ts'', ''master_metadata_album_artist_name'', ''ms_played''],
      rows = [[Str ''2023-01-01T00:00:00Z'', Str ''X'', Int64 60000]]\<rparr>"

definition file_b :: dataframe where
  "file_b =
     \<lparr>columns = [''ts'', ''master_metadata_album_artist_name'', ''ms_played''],
      rows = [[Str ''2023-06-01T00:00:00Z'', Str ''Y'', Int64 120000]]\<rparr>"


definition read_json_two :: "string \<Rightarrow> error + dataframe" where
  "read_json_two path =
     (if path = ''data/a.json'' then Inr file_a
      else if path = ''data/b.json'' then Inr file_b
      else Inl ValueError)"

definition unified_two :: dataframe where
  "unified_two =
     \<lparr>columns = [''ts'', ''master_metadata_album_artist_name'', ''ms_played''],
      rows = [[Str ''2023-01-01T00:00:00Z'', Str ''X'', Int64 60000],
              [Str ''2023-06-01T00:00:00Z'', Str ''Y'', Int64 120000]]\<rparr>"

text \<open>An export in which no record has an album name.\<close>

definition export_no_album :: dataframe where
  "export_no_album =
     \<lparr>columns = [''ts'', ''master_metadata_album_artist_name'',
                 ''master_metadata_track_name'', ''ms_played''],
      rows = [[Str ''2023-01-01T00:00:00Z'', Str ''X'', Str ''S'', Int64 60000]]\<rparr>"



text \<open>
  An enriched table: two artists over two years, a play without an artist, a play
  without a duration and a play of 240 ms.
\<close>

definition plays :: dataframe where
  "plays =
     \<lparr>columns = [''Year'', ''artist'', ''mins_played'', ''hours_played'', ''days_played''],
      rows =
        [[Int64 2023, Str ''Y'', Float64 2, Float64 (1 / 30), Float64 (1 / 720)],
         [Int64 2023, Str ''X'', Float64 1, Float64 (1 / 60), Float64 (1 / 1440)],
         [Int64 2022, NaN, Float64 3, Float64 (1 / 20), Float64 (1 / 480)],
         [Int64 2022, Str ''X'', NaN, NaN, NaN],
         [Int64 2022, Str ''Y'', Float64 (1 / 250), Float64 (1 / 15000), Float64 (1 / 360000)]]\<rparr>"

text \<open>Three artists with one play of 240 ms (0.004 minutes) each.\<close>

definition short_plays :: dataframe where
  "short_plays =
     \<lparr>columns = [''Year'', ''artist'', ''mins_played'', ''hours_played'', ''days_played''],
      rows =
        [[Int64 2023, Str ''A'', Float64 (1 / 250), Float64 (1 / 15000), Float64 (1 / 360000)],
         [Int64 2023, Str ''B'', Float64 (1 / 250), Float64 (1 / 15000), Float64 (1 / 360000)],
         [Int64 2023, Str ''C'', Float64 (1 / 250), Float64 (1 / 15000), Float64 (1 / 360000)]]\<rparr>"

text \<open>Artist B is met first, then artist A, one minute each.\<close>

definition tie_plays :: dataframe where
  "tie_plays =
     \<lparr>columns = [''Year'', ''artist'', ''mins_played'', ''hours_played'', ''days_played''],
      rows =
        [[Int64 2023, Str ''B'', Float64 1, Float64 (1 / 60), Float64 (1 / 1440)],
         [Int64 2023, Str ''A'', Float64 1, Float64 (1 / 60), Float64 (1 / 1440)]]\<rparr>"

text \<open>Artist X with 60240 ms (1.004 minutes), artist Y with 60180 ms (1.003 minutes).\<close>

definition close_plays :: dataframe where
  "close_plays =
     \<lparr>columns = [''Year'', ''artist'', ''mins_played'', ''hours_played'', ''days_played''],
      rows =
        [[Int64 2023, Str ''X'', Float64 (251 / 250), Float64 (251 / 15000), Float64 (251 / 360000)],
         [Int64 2023, Str ''Y'', Float64 (1003 / 1000), Float64 (1003 / 60000), Float64 (1003 / 1440000)]]\<rparr>"

text \<open>The scenario of the specification: artists A, B, A in 2022 and A, C in 2023.\<close>

definition events_by_year :: dataframe where
  "events_by_year =
     \<lparr>columns = [''Year'', ''artist''],
      rows = [[Int64 2022, Str ''A''], [Int64 2022, Str ''B''], [Int64 2022, Str ''A''],
              [Int64 2023, Str ''A''], [Int64 2023, Str ''C'']]\<rparr>"





section \<open>Lemmas\<close>


lemma collect_map_Inr: "collect (map Inr ys) = Inr ys"
  by (induction ys) auto

lemma collect_InrD: "collect xs = Inr ys \<Longrightarrow> xs = map Inr ys"
  by (induction xs arbitrary: ys) (auto split: sum.splits)






lemma read_each_length:
  "read_each rd d fs acc = Inr dfs \<Longrightarrow> length dfs = length acc + length fs"
  by (induction fs arbitrary: acc) (auto split: sum.splits)








lemma to_float_Inr: "to_float c = Inr x \<Longrightarrow> x = addend c"
  by (cases c) auto

lemma played_of_Inr: "played_of kis mi hi di r = Inr p \<Longrightarrow> p = proj kis mi hi di r"
  by (auto simp: played_of_def proj_def split: sum.splits dest: to_float_Inr)

lemma collect_played_of:
  "collect (map (played_of kis mi hi di) rs) = Inr ps \<Longrightarrow> ps = map (proj kis mi hi di) rs"
proof -
  assume "collect (map (played_of kis mi hi di) rs) = Inr ps"
  then have eq: "map (played_of kis mi hi di) rs = map Inr ps" by (rule collect_InrD)
  then have len: "length rs = length ps" by (metis length_map)
  show ?thesis
  proof (rule nth_equalityI)
    show "length ps = length (map (proj kis mi hi di) rs)" using len by simp
  next
    fix j assume j: "j < length ps"
    have "map (played_of kis mi hi di) rs ! j = map Inr ps ! j" using eq by simp
    then have "played_of kis mi hi di (rs ! j) = Inr (ps ! j)" using j len by simp
    then show "ps ! j = map (proj kis mi hi di) rs ! j"
      using j len by (simp add: played_of_Inr)
  qed
qed

lemma loc_Inr: "loc cols c = Inr i \<longleftrightarrow> get_loc cols c = Some i"
  by (simp add: loc_def split: option.splits)

lemma groupby_sum_Inr:
  assumes "groupby_sum keys df = Inr g"
  obtains kis mi hi di where
    "locs (columns df) keys = Inr kis"
    "get_loc (columns df) ''mins_played'' = Some mi"
    "get_loc (columns df) ''hours_played'' = Some hi"
    "get_loc (columns df) ''days_played'' = Some di"
    "collect (map (played_of kis mi hi di) (rows df)) = Inr (map (proj kis mi hi di) (rows df))"
    "g = map (group_sum (dropna (map (proj kis mi hi di) (rows df))))
           (group_keys (dropna (map (proj kis mi hi di) (rows df))))"
proof -
  from assms obtain kis mi hi di ps where
    a: "locs (columns df) keys = Inr kis"
      "loc (columns df) ''mins_played'' = Inr mi"
      "loc (columns df) ''hours_played'' = Inr hi"
      "loc (columns df) ''days_played'' = Inr di"
      "collect (map (played_of kis mi hi di) (rows df)) = Inr ps"
      "g = map (group_sum (dropna ps)) (group_keys (dropna ps))"
    by (auto simp: groupby_sum_def split: sum.splits)
  have "ps = map (proj kis mi hi di) (rows df)" using a(5) by (rule collect_played_of)
  with a that show ?thesis by (simp add: loc_Inr)
qed

lemma set_group_keys: "set (group_keys ps) = fst ` set ps"
  by (simp add: group_keys_def)

lemma distinct_group_keys: "distinct (group_keys ps)"
  by (simp add: group_keys_def)

lemma sorted_group_keys: "sorted (map (map cell_enc) (group_keys ps))"
  by (simp add: group_keys_def)

lemma sum_list_delta:
  "distinct ks \<Longrightarrow> a \<in> set ks \<Longrightarrow> (\<Sum>k\<leftarrow>ks. if a = k then (c::rat) else 0) = c"
  by (simp add: sum_list_distinct_conv_sum_set)

lemma sum_over_groups:
  fixes f :: "played \<Rightarrow> rat"
  assumes "distinct ks" and "fst ` set ps \<subseteq> set ks"
  shows "(\<Sum>k\<leftarrow>ks. sum_list (map f (filter (\<lambda>p. fst p = k) ps))) = sum_list (map f ps)"
  using assms(2)
proof (induction ps)
  case Nil
  then show ?case by simp
next
  case (Cons p ps)
  have "(\<Sum>k\<leftarrow>ks. sum_list (map f (filter (\<lambda>q. fst q = k) (p # ps)))) =
        (\<Sum>k\<leftarrow>ks. (if fst p = k then f p else 0) + sum_list (map f (filter (\<lambda>q. fst q = k) ps)))"
    by (intro arg_cong [where f = sum_list] map_cong) auto
  also have "\<dots> = (\<Sum>k\<leftarrow>ks. if fst p = k then f p else 0) +
                    (\<Sum>k\<leftarrow>ks. sum_list (map f (filter (\<lambda>q. fst q = k) ps)))"
    by (simp add: sum_list_addf)
  also have "\<dots> = f p + sum_list (map f ps)"
    using Cons assms(1) by (simp add: sum_list_delta)
  finally show ?case by simp
qed

lemma sum_list_perm:
  fixes f :: "'a \<Rightarrow> rat"
  shows "mset xs = mset ys \<Longrightarrow> sum_list (map f xs) = sum_list (map f ys)"
  by (metis mset_map sum_mset_sum_list)

lemma sorts_descD1: "sorts_desc kind \<Longrightarrow> mset (kind xs) = mset xs"
  by (simp add: sorts_desc_def)

lemma sorts_descD2:
  "sorts_desc kind \<Longrightarrow> sorted_wrt (\<lambda>a b. mins_played b \<le> mins_played a) (kind xs)"
  by (simp add: sorts_desc_def)

lemma sorts_desc_set: "sorts_desc kind \<Longrightarrow> set (kind xs) = set xs"
  by (metis sorts_descD1 set_mset_mset)

lemma sorts_desc_insertion: "sorts_desc insertion_desc"
proof -
  have "sorted_wrt (\<lambda>a b. mins_played b \<le> mins_played a) (insertion_desc xs)" for xs
  proof -
    have "sorted (map (\<lambda>r. - mins_played r) (insertion_desc xs))"
      by (simp add: insertion_desc_def)
    then show ?thesis by (simp add: sorted_wrt_map)
  qed
  then show ?thesis by (simp add: sorts_desc_def insertion_desc_def)
qed

lemma group_totals:
  "sum_list (map mins_played (map (group_sum ps) (group_keys ps))) = (\<Sum>(k, m, h, d)\<leftarrow>ps. m)"
  "sum_list (map hours_played (map (group_sum ps) (group_keys ps))) = (\<Sum>(k, m, h, d)\<leftarrow>ps. h)"
  "sum_list (map days_played (map (group_sum ps) (group_keys ps))) = (\<Sum>(k, m, h, d)\<leftarrow>ps. d)"
  using sum_over_groups [OF distinct_group_keys [of ps], of ps]
  by (simp_all add: group_sum_def comp_def set_group_keys)

lemma locs_single: "locs cols [c] = Inr kis \<longleftrightarrow> (\<exists>i. get_loc cols c = Some i \<and> kis = [i])"
  by (auto simp: locs_def loc_def split: option.splits)

lemma locs_pair:
  "locs cols [c, c'] = Inr kis \<longleftrightarrow>
   (\<exists>i j. get_loc cols c = Some i \<and> get_loc cols c' = Some j \<and> kis = [i, j])"
  by (auto simp: locs_def loc_def split: option.splits)

lemma artist_sums_by_position:
  assumes "sorts_desc kind" and "sum_sorted kind [''artist''] df = Inr out"
  shows "\<exists>ai mi hi di.
           get_loc (columns df) ''artist'' = Some ai \<and>
           get_loc (columns df) ''mins_played'' = Some mi \<and>
           get_loc (columns df) ''hours_played'' = Some hi \<and>
           get_loc (columns df) ''days_played'' = Some di \<and>
           sum_list (map mins_played out) =
             (\<Sum>r\<leftarrow>filter (\<lambda>r. r ! ai \<noteq> NaN) (rows df). addend (r ! mi)) \<and>
           sum_list (map hours_played out) =
             (\<Sum>r\<leftarrow>filter (\<lambda>r. r ! ai \<noteq> NaN) (rows df). addend (r ! hi)) \<and>
           sum_list (map days_played out) =
             (\<Sum>r\<leftarrow>filter (\<lambda>r. r ! ai \<noteq> NaN) (rows df). addend (r ! di))"
proof -
  from assms(2) obtain g where g: "groupby_sum [''artist''] df = Inr g" and out: "out = kind g"
    by (auto simp: sum_sorted_def split: sum.splits)
  from g obtain kis mi hi di where
    k: "locs (columns df) [''artist''] = Inr kis"
    and m: "get_loc (columns df) ''mins_played'' = Some mi"
      "get_loc (columns df) ''hours_played'' = Some hi"
      "get_loc (columns df) ''days_played'' = Some di"
    and gd: "g = map (group_sum (dropna (map (proj kis mi hi di) (rows df))))
           (group_keys (dropna (map (proj kis mi hi di) (rows df))))"
    by (rule groupby_sum_Inr)
  from k obtain ai where ai: "get_loc (columns df) ''artist'' = Some ai" "kis = [ai]"
    by (auto simp: locs_single)
  have kept: "dropna (map (proj kis mi hi di) (rows df)) =
      map (proj kis mi hi di) (filter (\<lambda>r. r ! ai \<noteq> NaN) (rows df))"
  proof -
    have "(\<lambda>r. NaN \<noteq> r ! ai) = (\<lambda>r. r ! ai \<noteq> NaN)" by auto
    then show ?thesis
      using ai(2) by (simp add: dropna_def filter_map comp_def proj_def)
  qed
  have perm: "sum_list (map f out) = sum_list (map f g)" for f :: "agg_row \<Rightarrow> rat"
    unfolding out using sorts_descD1 [OF assms(1)] by (rule sum_list_perm)
  have "sum_list (map mins_played out) = (\<Sum>r\<leftarrow>filter (\<lambda>r. r ! ai \<noteq> NaN) (rows df). addend (r ! mi))"
    unfolding perm gd group_totals kept by (simp add: comp_def proj_def)
  moreover have "sum_list (map hours_played out) = (\<Sum>r\<leftarrow>filter (\<lambda>r. r ! ai \<noteq> NaN) (rows df). addend (r ! hi))"
    unfolding perm gd group_totals kept by (simp add: comp_def proj_def)
  moreover have "sum_list (map days_played out) = (\<Sum>r\<leftarrow>filter (\<lambda>r. r ! ai \<noteq> NaN) (rows df). addend (r ! di))"
    unfolding perm gd group_totals kept by (simp add: comp_def proj_def)
  ultimately show ?thesis using ai(1) m by blast
qed


lemma rint_bounds: "\<lfloor>x\<rfloor> \<le> rint x \<and> rint x \<le> \<lfloor>x\<rfloor> + 1"
  by (simp add: rint_def)

lemma rint_mono:
  assumes "x \<le> y"
  shows "rint x \<le> rint y"
proof (cases "\<lfloor>x\<rfloor> = \<lfloor>y\<rfloor>")
  case True
  then have "x - of_int \<lfloor>x\<rfloor> \<le> y - of_int \<lfloor>y\<rfloor>" using assms by simp
  then show ?thesis using True by (auto simp: rint_def)
next
  case False
  then have "\<lfloor>x\<rfloor> + 1 \<le> \<lfloor>y\<rfloor>" using floor_mono [OF assms] by linarith
  then show ?thesis using rint_bounds [of x] rint_bounds [of y] by linarith
qed

lemma round2_mono: "x \<le> y \<Longrightarrow> round2 x \<le> round2 y"
  by (simp add: round2_def rint_mono divide_right_mono)

lemma sorted_round_frame:
  "sorted_wrt (\<lambda>a b. mins_played b \<le> mins_played a) xs \<Longrightarrow>
   sorted_wrt (\<lambda>a b. mins_played b \<le> mins_played a) (round_frame xs)"
proof -
  assume "sorted_wrt (\<lambda>a b. mins_played b \<le> mins_played a) xs"
  then have "sorted_wrt (\<lambda>a b. round2 (mins_played b) \<le> round2 (mins_played a)) xs"
    by (rule sorted_wrt_mono_rel [rotated]) (simp add: round2_mono)
  then show ?thesis by (simp add: round_frame_def sorted_wrt_map)
qed


lemma gkey_group_sums: "map gkey (map (group_sum ps) ks) = ks"
  by (induction ks) (auto simp: group_sum_def)

lemma groupby_sum_keys:
  assumes "groupby_sum keys df = Inr g"
  shows "distinct (map gkey g)" and "sorted (map (map cell_enc) (map gkey g))"
    and "\<forall>r \<in> set g. NaN \<notin> set (gkey r)"
proof -
  from assms obtain kis mi hi di where
    gd: "g = map (group_sum (dropna (map (proj kis mi hi di) (rows df))))
           (group_keys (dropna (map (proj kis mi hi di) (rows df))))"
    by (rule groupby_sum_Inr)
  have k: "map gkey g = group_keys (dropna (map (proj kis mi hi di) (rows df)))"
    unfolding gd by (rule gkey_group_sums)
  show "distinct (map gkey g)" unfolding k by (rule distinct_group_keys)
  show "sorted (map (map cell_enc) (map gkey g))" unfolding k by (rule sorted_group_keys)
  have "set (map gkey g) \<subseteq> fst ` set (dropna (map (proj kis mi hi di) (rows df)))"
    unfolding k by (simp add: set_group_keys)
  then show "\<forall>r \<in> set g. NaN \<notin> set (gkey r)"
    by (auto simp: dropna_def)
qed

text \<open>A row of the grouped frame: its key is the key of some table row, has no missing
  cell, and its sums run over exactly the table rows with this key.\<close>

lemma groupby_sum_row:
  assumes "groupby_sum keys df = Inr g" and "r \<in> set g"
  shows "\<exists>kis mi hi di.
           locs (columns df) keys = Inr kis \<and>
           get_loc (columns df) ''mins_played'' = Some mi \<and>
           get_loc (columns df) ''hours_played'' = Some hi \<and>
           get_loc (columns df) ''days_played'' = Some di \<and>
           NaN \<notin> set (gkey r) \<and>
           (\<exists>row \<in> set (rows df). map (\<lambda>i. row ! i) kis = gkey r) \<and>
           mins_played r =
             (\<Sum>row\<leftarrow>filter (\<lambda>row. map (\<lambda>i. row ! i) kis = gkey r) (rows df). addend (row ! mi)) \<and>
           hours_played r =
             (\<Sum>row\<leftarrow>filter (\<lambda>row. map (\<lambda>i. row ! i) kis = gkey r) (rows df). addend (row ! hi)) \<and>
           days_played r =
             (\<Sum>row\<leftarrow>filter (\<lambda>row. map (\<lambda>i. row ! i) kis = gkey r) (rows df). addend (row ! di))"
proof -
  from assms(1) obtain kis mi hi di where
    k: "locs (columns df) keys = Inr kis"
    and m: "get_loc (columns df) ''mins_played'' = Some mi"
      "get_loc (columns df) ''hours_played'' = Some hi"
      "get_loc (columns df) ''days_played'' = Some di"
    and gd: "g = map (group_sum (dropna (map (proj kis mi hi di) (rows df))))
           (group_keys (dropna (map (proj kis mi hi di) (rows df))))"
    by (rule groupby_sum_Inr)
  define ps where "ps = map (proj kis mi hi di) (rows df)"
  from assms(2) obtain key where key: "key \<in> set (group_keys (dropna ps))"
    and r: "r = group_sum (dropna ps) key"
    unfolding gd ps_def by auto
  have gk: "gkey r = key" using r by (simp add: group_sum_def)
  from key have "key \<in> fst ` set (dropna ps)" by (simp add: set_group_keys)
  then have nonan: "NaN \<notin> set key" and ex: "key \<in> fst ` set ps"
    by (auto simp: dropna_def)
  from ex have exrow: "\<exists>row \<in> set (rows df). map (\<lambda>i. row ! i) kis = key"
    by (auto simp: ps_def proj_def)
  have fl: "filter (\<lambda>p. fst p = key) (dropna ps) =
      map (proj kis mi hi di) (filter (\<lambda>row. map (\<lambda>i. row ! i) kis = key) (rows df))"
  proof -
    have "filter (\<lambda>p. fst p = key) (dropna ps) = filter (\<lambda>p. fst p = key) ps"
      using nonan by (auto simp: dropna_def intro: filter_cong)
    also have "\<dots> = map (proj kis mi hi di) (filter (\<lambda>row. map (\<lambda>i. row ! i) kis = key) (rows df))"
      by (simp add: ps_def filter_map comp_def proj_def)
    finally show ?thesis .
  qed
  have a: "mins_played r = (\<Sum>row\<leftarrow>filter (\<lambda>row. map (\<lambda>i. row ! i) kis = key) (rows df). addend (row ! mi))"
    unfolding r by (simp add: group_sum_def fl comp_def proj_def)
  have b: "hours_played r = (\<Sum>row\<leftarrow>filter (\<lambda>row. map (\<lambda>i. row ! i) kis = key) (rows df). addend (row ! hi))"
    unfolding r by (simp add: group_sum_def fl comp_def proj_def)
  have c: "days_played r = (\<Sum>row\<leftarrow>filter (\<lambda>row. map (\<lambda>i. row ! i) kis = key) (rows df). addend (row ! di))"
    unfolding r by (simp add: group_sum_def fl comp_def proj_def)
  show ?thesis
    unfolding gk
    by (intro exI [of _ kis] exI [of _ mi] exI [of _ hi] exI [of _ di] conjI k m nonan exrow a b c)
qed



lemma groupby_sum_row_sums:
  assumes "groupby_sum keys df = Inr g" and "r \<in> set g"
  shows "sum_for_keys keys (gkey r) ''mins_played'' df = Inr (mins_played r)"
    and "sum_for_keys keys (gkey r) ''hours_played'' df = Inr (hours_played r)"
    and "sum_for_keys keys (gkey r) ''days_played'' df = Inr (days_played r)"
    and "NaN \<notin> set (gkey r)"
  using groupby_sum_row [OF assms]
  by (auto simp: sum_for_keys_def loc_def)

lemma list_time_by_Inr:
  assumes "list_time_by kind keys df = Inr out"
  obtains g where "groupby_sum keys df = Inr g" "sum_sorted kind keys df = Inr (kind g)"
    "out = round_frame (kind g)"
  using assms by (auto simp: list_time_by_def sum_sorted_def split: sum.splits)


lemma json_files_none: "json_files_of [''notes.txt'', ''history.jsonl''] = []"
  by code_simp

lemma read_two: "read_jsons_to_df listdir_two read_json_two ''data/'' = Inr unified_two"
  by code_simp

lemma plays_sum_sorted:
  "sum_sorted insertion_desc [''artist''] plays = Inr
    [\<lparr>gkey = [Str ''Y''], mins_played = 501 / 250, hours_played = 167 / 5000, days_played = 167 / 120000\<rparr>,
     \<lparr>gkey = [Str ''X''], mins_played = 1, hours_played = 1 / 60, days_played = 1 / 1440\<rparr>]"
  by code_simp

lemma tie_out:
  "list_time_by insertion_desc [''artist''] tie_plays = Inr
     [\<lparr>gkey = [Str ''A''], mins_played = 1, hours_played = 1 / 50, days_played = 0\<rparr>,
      \<lparr>gkey = [Str ''B''], mins_played = 1, hours_played = 1 / 50, days_played = 0\<rparr>]"
  by code_simp

lemma top_15_artists_Inr:
  assumes "top_15_artists kind df = Inr top15"
  obtains g where "groupby_sum [''artist''] df = Inr g"
    "sum_sorted kind [''artist''] df = Inr (kind g)"
    "list_time_by_artist kind df = Inr (round_frame (kind g))"
    "top15 = take 15 (kind (round_frame (kind g)))"
  using assms
  by (auto simp: top_15_artists_def list_time_by_artist_def list_time_by_def sum_sorted_def
      split: sum.splits)

lemma filtered_df_Inr:
  assumes "filtered_df kind df = Inr fdf"
  obtains top15 ai where "top_15_artists kind df = Inr top15"
    "get_loc (columns df) ''artist'' = Some ai"
    "columns fdf = columns df"
    "rows fdf = filter (\<lambda>r. [r ! ai] \<in> set (map gkey top15)) (rows df)"
  using assms
  by (auto simp: filtered_df_def loc_Inr split: sum.splits)

lemma in_round_frame:
  assumes "r \<in> set (round_frame xs)"
  obtains r0 where "r0 \<in> set xs" "gkey r = gkey r0"
    "mins_played r = round2 (mins_played r0)"
    "hours_played r = round2 (hours_played r0)"
    "days_played r = round2 (days_played r0)"
  using assms by (auto simp: round_frame_def)

text \<open>
  A row of the artist-by-year table: its artist is a key of the fifteen selected rows, and
  its values are the rounded sums over the rows of the full table with this artist and
  year.
\<close>

lemma month_row:
  assumes kind: "sorts_desc kind"
    and run: "list_time_by_month kind df = Inr out"
    and r: "r \<in> set out"
  shows "\<exists>top15 t a y m h d.
           top_15_artists kind df = Inr top15 \<and> t \<in> set top15 \<and> gkey t = [a] \<and>
           gkey r = [a, y] \<and> a \<noteq> NaN \<and> y \<noteq> NaN \<and>
           sum_for_keys [''artist'', ''Year''] [a, y] ''mins_played'' df = Inr m \<and>
           mins_played r = round2 m \<and>
           sum_for_keys [''artist'', ''Year''] [a, y] ''hours_played'' df = Inr h \<and>
           hours_played r = round2 h \<and>
           sum_for_keys [''artist'', ''Year''] [a, y] ''days_played'' df = Inr d \<and>
           days_played r = round2 d"
proof -
  from run obtain fdf where fdf: "filtered_df kind df = Inr fdf"
    and lt: "list_time_by kind [''artist'', ''Year''] fdf = Inr out"
    by (auto simp: list_time_by_month_def split: sum.splits)
  from fdf obtain top15 ai where top: "top_15_artists kind df = Inr top15"
    and ai: "get_loc (columns df) ''artist'' = Some ai"
    and cols: "columns fdf = columns df"
    and rws: "rows fdf = filter (\<lambda>r. [r ! ai] \<in> set (map gkey top15)) (rows df)"
    by (rule filtered_df_Inr)
  from lt obtain g where g: "groupby_sum [''artist'', ''Year''] fdf = Inr g"
    and out: "out = round_frame (kind g)"
    by (rule list_time_by_Inr)
  from r obtain r0 where r0: "r0 \<in> set (kind g)" and rk: "gkey r = gkey r0"
    and rv: "mins_played r = round2 (mins_played r0)"
      "hours_played r = round2 (hours_played r0)"
      "days_played r = round2 (days_played r0)"
    unfolding out by (rule in_round_frame)
  from r0 have r0g: "r0 \<in> set g" using sorts_desc_set [OF kind] by simp
  from groupby_sum_row [OF g r0g] obtain kis mi hi di row where
    k: "locs (columns df) [''artist'', ''Year''] = Inr kis"
    and m: "get_loc (columns df) ''mins_played'' = Some mi"
      "get_loc (columns df) ''hours_played'' = Some hi"
      "get_loc (columns df) ''days_played'' = Some di"
    and nonan: "NaN \<notin> set (gkey r0)"
    and row: "row \<in> set (rows fdf)" "map (\<lambda>i. row ! i) kis = gkey r0"
    and v: "mins_played r0 =
        (\<Sum>row\<leftarrow>filter (\<lambda>row. map (\<lambda>i. row ! i) kis = gkey r0) (rows fdf). addend (row ! mi))"
      "hours_played r0 =
        (\<Sum>row\<leftarrow>filter (\<lambda>row. map (\<lambda>i. row ! i) kis = gkey r0) (rows fdf). addend (row ! hi))"
      "days_played r0 =
        (\<Sum>row\<leftarrow>filter (\<lambda>row. map (\<lambda>i. row ! i) kis = gkey r0) (rows fdf). addend (row ! di))"
    unfolding cols by blast
  from k ai obtain yi where yi: "get_loc (columns df) ''Year'' = Some yi" and kis: "kis = [ai, yi]"
    by (auto simp: locs_pair)
  define a where "a = row ! ai"
  define y where "y = row ! yi"
  have key: "gkey r0 = [a, y]" using row(2) kis by (simp add: a_def y_def)
  have isin: "[a] \<in> set (map gkey top15)" using row(1) rws by (simp add: a_def)
  then obtain t where t: "t \<in> set top15" "gkey t = [a]" by auto
  have fl: "filter (\<lambda>row. map (\<lambda>i. row ! i) kis = gkey r0) (rows fdf) =
      filter (\<lambda>row. map (\<lambda>i. row ! i) kis = [a, y]) (rows df)"
    unfolding rws key filter_filter using isin kis
    by (intro filter_cong) auto
  have s: "sum_for_keys [''artist'', ''Year''] [a, y] c df =
      Inr (\<Sum>row\<leftarrow>filter (\<lambda>row. map (\<lambda>i. row ! i) kis = [a, y]) (rows df). addend (row ! ci))"
    if "get_loc (columns df) c = Some ci" for c ci
    using that k by (simp add: sum_for_keys_def loc_def)
  have sums: "sum_for_keys [''artist'', ''Year''] [a, y] ''mins_played'' df = Inr (mins_played r0)"
    "sum_for_keys [''artist'', ''Year''] [a, y] ''hours_played'' df = Inr (hours_played r0)"
    "sum_for_keys [''artist'', ''Year''] [a, y] ''days_played'' df = Inr (days_played r0)"
    using s m v by (simp_all add: fl)
  have nn: "a \<noteq> NaN" "y \<noteq> NaN" using nonan key by auto
  have rkey: "gkey r = [a, y]" using rk key by simp
  show ?thesis
    by (intro exI [of _ top15] exI [of _ t] exI [of _ a] exI [of _ y]
        exI [of _ "mins_played r0"] exI [of _ "hours_played r0"] exI [of _ "days_played r0"]
        conjI top t rkey nn sums rv)
qed

lemma nunique_card: "nunique vs = card (set vs - {NaN})"
proof -
  have "set (filter (\<lambda>v. v \<noteq> NaN) vs) = set vs - {NaN}" by auto
  then show ?thesis by (simp add: nunique_def length_remdups_card_conv)
qed

lemma nunique_by_year_Inr:
  assumes "nunique_by_year df = Inr out"
  obtains yi ai where
    "get_loc (columns df) ''Year'' = Some yi"
    "get_loc (columns df) ''artist'' = Some ai"
    "out = map (\<lambda>y. (y, nunique (map (\<lambda>r. r ! ai) (filter (\<lambda>r. r ! yi = y) (rows df)))))
             (sort_key cell_enc (remdups (filter (\<lambda>y. y \<noteq> NaN) (map (\<lambda>r. r ! yi) (rows df)))))"
  using assms by (auto simp: nunique_by_year_def loc_Inr split: sum.splits)

lemma nunique_by_year_rows:
  assumes "nunique_by_year df = Inr out"
  shows "\<exists>yi ai.
           get_loc (columns df) ''Year'' = Some yi \<and>
           get_loc (columns df) ''artist'' = Some ai \<and>
           distinct (map fst out) \<and>
           sorted (map cell_enc (map fst out)) \<and>
           set (map fst out) = (\<lambda>r. r ! yi) ` set (rows df) - {NaN} \<and>
           (\<forall>(y, n) \<in> set out.
              n = card ((\<lambda>r. r ! ai) ` {r \<in> set (rows df). r ! yi = y} - {NaN}))"
proof -
  from assms obtain yi ai where
    yi: "get_loc (columns df) ''Year'' = Some yi"
    and ai: "get_loc (columns df) ''artist'' = Some ai"
    and out: "out = map (\<lambda>y. (y, nunique (map (\<lambda>r. r ! ai) (filter (\<lambda>r. r ! yi = y) (rows df)))))
             (sort_key cell_enc (remdups (filter (\<lambda>y. y \<noteq> NaN) (map (\<lambda>r. r ! yi) (rows df)))))"
    by (rule nunique_by_year_Inr)
  define years where
    "years = sort_key cell_enc (remdups (filter (\<lambda>y. y \<noteq> NaN) (map (\<lambda>r. r ! yi) (rows df))))"
  have fst: "map fst out = years" unfolding out years_def by (simp add: comp_def)
  have d: "distinct (map fst out)" unfolding fst years_def by simp
  have s: "sorted (map cell_enc (map fst out))" unfolding fst years_def by simp
  have e: "set (map fst out) = (\<lambda>r. r ! yi) ` set (rows df) - {NaN}"
    unfolding fst years_def by auto
  have c: "\<forall>(y, n) \<in> set out.
      n = card ((\<lambda>r. r ! ai) ` {r \<in> set (rows df). r ! yi = y} - {NaN})"
    unfolding out by (auto simp: nunique_card)
  show ?thesis by (intro exI [of _ yi] exI [of _ ai] conjI yi ai d s e c)
qed

lemma groupby_sum_dropna_rows:
  assumes "groupby_sum keys df = Inr g"
  shows "groupby_sum keys (dropna_rows keys df) = Inr g"
proof -
  from assms obtain kis mi hi di where
    k: "locs (columns df) keys = Inr kis"
    and m: "get_loc (columns df) ''mins_played'' = Some mi"
      "get_loc (columns df) ''hours_played'' = Some hi"
      "get_loc (columns df) ''days_played'' = Some di"
    and col: "collect (map (played_of kis mi hi di) (rows df)) = Inr (map (proj kis mi hi di) (rows df))"
    and gd: "g = map (group_sum (dropna (map (proj kis mi hi di) (rows df))))
           (group_keys (dropna (map (proj kis mi hi di) (rows df))))"
    by (rule groupby_sum_Inr)
  define keep where "keep = (\<lambda>r :: cell list. NaN \<notin> set (map (\<lambda>i. r ! i) kis))"
  have df': "dropna_rows keys df = \<lparr>columns = columns df, rows = filter keep (rows df)\<rparr>"
    using k by (simp add: dropna_rows_def keep_def)
  from col have "map (played_of kis mi hi di) (rows df) = map Inr (map (proj kis mi hi di) (rows df))"
    by (rule collect_InrD)
  then have each: "\<forall>r \<in> set (rows df). played_of kis mi hi di r = Inr (proj kis mi hi di r)"
    by simp
  have "map (played_of kis mi hi di) (filter keep (rows df)) =
      map Inr (map (proj kis mi hi di) (filter keep (rows df)))"
    using each by simp
  then have col': "collect (map (played_of kis mi hi di) (filter keep (rows df))) =
      Inr (map (proj kis mi hi di) (filter keep (rows df)))"
    by (simp only: collect_map_Inr)
  have same: "dropna (map (proj kis mi hi di) (filter keep (rows df))) =
      dropna (map (proj kis mi hi di) (rows df))"
    by (simp add: dropna_def filter_map comp_def proj_def keep_def)
  show ?thesis
    using k m col' by (simp add: groupby_sum_def df' loc_def same gd)
qed




lemma close_top15:
  "top_15_artists insertion_desc close_plays = Inr
     [\<lparr>gkey = [Str ''X''], mins_played = 1, hours_played = 1 / 50, days_played = 0\<rparr>,
      \<lparr>gkey = [Str ''Y''], mins_played = 1, hours_played = 1 / 50, days_played = 0\<rparr>]"
  by code_simp

lemma close_sum_sorted:
  "sum_sorted insertion_desc [''artist''] close_plays = Inr
     [\<lparr>gkey = [Str ''X''], mins_played = 251 / 250, hours_played = 251 / 15000,
       days_played = 251 / 360000\<rparr>,
      \<lparr>gkey = [Str ''Y''], mins_played = 1003 / 1000, hours_played = 1003 / 60000,
       days_played = 1003 / 1440000\<rparr>]"
  by code_simp

lemma close_month:
  "list_time_by_month insertion_desc close_plays = Inr
     [\<lparr>gkey = [Str ''X'', Int64 2023], mins_played = 1, hours_played = 1 / 50, days_played = 0\<rparr>,
      \<lparr>gkey = [Str ''Y'', Int64 2023], mins_played = 1, hours_played = 1 / 50, days_played = 0\<rparr>]"
  by code_simp

lemma events_counts: "nunique_by_year events_by_year = Inr [(Int64 2022, 2), (Int64 2023, 2)]"
  by code_simp

lemma plays_artist: "getitem plays ''artist'' = Inr [Str ''Y'', Str ''X'', NaN, Str ''X'', Str ''Y'']"
  by code_simp

lemma plays_by_artist:
  "list_time_by insertion_desc [''artist''] plays = Inr
    [\<lparr>gkey = [Str ''Y''], mins_played = 2, hours_played = 3 / 100, days_played = 0\<rparr>,
     \<lparr>gkey = [Str ''X''], mins_played = 1, hours_played = 1 / 50, days_played = 0\<rparr>]"
  by code_simp

lemma plays_counts: "nunique_by_year plays = Inr [(Int64 2022, 2), (Int64 2023, 2)]"
  by code_simp
















section \<open>The claims\<close>

subsection \<open>Loader\<close>



text \<open>
  Claim C10. When the directory holds no file whose name ends in \<^verbatim>\<open>.json\<close>, the loader
  raises \<^verbatim>\<open>ValueError\<close> (from \<^verbatim>\<open>pd.concat\<close> of an empty list) and returns no table; so
  whenever it returns a table, the directory was listed and held at least one such
  file.
\<close>

theorem loader_needs_json:
  "(os_listdir d = Inr names \<and> json_files_of names = [] \<longrightarrow>
      read_jsons_to_df os_listdir pd_read_json d = Inl ValueError) \<and>
   (read_jsons_to_df os_listdir pd_read_json d = Inr df \<longrightarrow>
      (\<exists>names. os_listdir d = Inr names \<and> json_files_of names \<noteq> []))"
proof (intro conjI impI)
  assume "os_listdir d = Inr names \<and> json_files_of names = []"
  then show "read_jsons_to_df os_listdir pd_read_json d = Inl ValueError"
    by (simp add: read_jsons_to_df_def pd_concat_def)
next
  assume ok: "read_jsons_to_df os_listdir pd_read_json d = Inr df"
  then obtain names where n: "os_listdir d = Inr names"
    by (auto simp: read_jsons_to_df_def split: sum.splits)
  have "json_files_of names \<noteq> []"
  proof
    assume "json_files_of names = []"
    with n ok show False by (simp add: read_jsons_to_df_def pd_concat_def)
  qed
  with n show "\<exists>names. os_listdir d = Inr names \<and> json_files_of names \<noteq> []" by blast
qed

theorem loader_needs_json_witness:
  "listdir_no_json ''data/'' = Inr [''notes.txt'', ''history.jsonl''] \<and>
   json_files_of [''notes.txt'', ''history.jsonl''] = [] \<and>
   read_jsons_to_df listdir_no_json read_json_two ''data/'' = Inl ValueError \<and>
   read_jsons_to_df listdir_two read_json_two ''data/'' = Inr unified_two \<and>
   (\<exists>names. listdir_two ''data/'' = Inr names \<and> json_files_of names \<noteq> [])"
proof -
  have h1: "listdir_no_json ''data/'' = Inr [''notes.txt'', ''history.jsonl'']"
    by (simp add: listdir_no_json_def)
  have a: "read_jsons_to_df listdir_no_json read_json_two ''data/'' = Inl ValueError"
    using loader_needs_json [of listdir_no_json "''data/''" "[''notes.txt'', ''history.jsonl'']"
        read_json_two] h1 json_files_none
    by blast
  have b: "\<exists>names. listdir_two ''data/'' = Inr names \<and> json_files_of names \<noteq> []"
    using loader_needs_json [of listdir_two "''data/''" _ read_json_two unified_two] read_two
    by blast
  from h1 json_files_none a read_two b show ?thesis by blast
qed


subsection \<open>Enricher\<close>



text \<open>
  Claim C7, as amended. The rename step never raises. It relabels those of the three
  source columns that the table has to \<^verbatim>\<open>artist\<close>, \<^verbatim>\<open>album\<close> and \<^verbatim>\<open>song\<close>, skips the
  ones it lacks, and leaves every other label and every cell as it is. (A missing source
  column shows later, as \<^verbatim>\<open>KeyError\<close> in the first \<^verbatim>\<open>groupby\<close> on the label that was
  not created.)
\<close>

theorem rename_never_raises:
  "rename_artist_album_song df = Inr \<lparr>columns = map short_name (columns df), rows = rows df\<rparr>"
  by (simp add: rename_artist_album_song_def rename_def short_name_def split: list.splits)

text \<open>
  Claim C7 as stated fails: on a table without the album column the rename step returns
  the table with the two other columns renamed, and no error.
\<close>

theorem rename_missing_column_counterexample:
  "''master_metadata_album_album_name'' \<notin> set (columns export_no_album) \<and>
   rename_artist_album_song export_no_album =
     Inr \<lparr>columns = [''ts'', ''artist'', ''song'', ''ms_played''],
          rows = [[Str ''2023-01-01T00:00:00Z'', Str ''X'', Str ''S'', Int64 60000]]\<rparr>"
  by (simp add: export_no_album_def rename_artist_album_song_def rename_def)


subsection \<open>Aggregator\<close>

text \<open>
  Claim C1, as amended. For the artist aggregation as it is computed before the
  rounding to two decimals (grouped, summed and sorted), the per-group sums of
  mins_played add up to the sum of mins_played over the rows of the table whose
  artist is not missing, and likewise for hours_played and days_played.
\<close>

theorem artist_sums_conserved:
  assumes "sorts_desc kind" and "sum_sorted kind [''artist''] df = Inr out"
  shows "sum_where_present ''artist'' ''mins_played'' df = Inr (sum_list (map mins_played out)) \<and>
         sum_where_present ''artist'' ''hours_played'' df = Inr (sum_list (map hours_played out)) \<and>
         sum_where_present ''artist'' ''days_played'' df = Inr (sum_list (map days_played out))"
  using artist_sums_by_position [OF assms]
  by (auto simp: sum_where_present_def loc_def)

theorem artist_sums_conserved_witness:
  "sorts_desc insertion_desc \<and>
   sum_sorted insertion_desc [''artist''] plays = Inr
    [\<lparr>gkey = [Str ''Y''], mins_played = 501 / 250, hours_played = 167 / 5000,
      days_played = 167 / 120000\<rparr>,
     \<lparr>gkey = [Str ''X''], mins_played = 1, hours_played = 1 / 60, days_played = 1 / 1440\<rparr>] \<and>
   sum_where_present ''artist'' ''mins_played'' plays = Inr (501 / 250 + 1) \<and>
   sum_where_present ''artist'' ''hours_played'' plays = Inr (167 / 5000 + 1 / 60) \<and>
   sum_where_present ''artist'' ''days_played'' plays = Inr (167 / 120000 + 1 / 1440)"
  using artist_sums_conserved [OF sorts_desc_insertion plays_sum_sorted]
    sorts_desc_insertion plays_sum_sorted
  by simp

text \<open>
  Claim C1 as stated fails for the table the notebook keeps, \<^verbatim>\<open>list_time_by_artist\<close>,
  whose sums are rounded: three artists with 0.004 minutes each are shown with 0
  minutes, which add up to 0 and not to 0.012.
\<close>

theorem rounded_sums_counterexample:
  "list_time_by_artist insertion_desc short_plays = Inr
     [\<lparr>gkey = [Str ''A''], mins_played = 0, hours_played = 0, days_played = 0\<rparr>,
      \<lparr>gkey = [Str ''B''], mins_played = 0, hours_played = 0, days_played = 0\<rparr>,
      \<lparr>gkey = [Str ''C''], mins_played = 0, hours_played = 0, days_played = 0\<rparr>] \<and>
   sum_list (map mins_played
     [\<lparr>gkey = [Str ''A''], mins_played = 0, hours_played = 0, days_played = 0\<rparr>,
      \<lparr>gkey = [Str ''B''], mins_played = 0, hours_played = 0, days_played = 0\<rparr>,
      \<lparr>gkey = [Str ''C''], mins_played = 0, hours_played = 0, days_played = 0\<rparr>]) = 0 \<and>
   sum_where_present ''artist'' ''mins_played'' short_plays = Inr (3 / 250)"
  by code_simp

text \<open>
  Claim C4, as amended. For every list of key columns, the rows of the aggregation are in
  non-increasing order of their minutes, before the rounding (by the sums) and after it
  (by the rounded sums). They are the groups of \<^verbatim>\<open>groupby\<close>, which reach the sort in
  strictly ascending order of their keys, whatever the order in which the table meets
  the keys; nothing is promised about the order of groups with equal minutes.
\<close>

theorem sorted_by_minutes:
  assumes "sorts_desc kind" and "list_time_by kind keys df = Inr out"
  shows "sorted_wrt (\<lambda>a b. mins_played b \<le> mins_played a) out \<and>
         (\<exists>s g. sum_sorted kind keys df = Inr s \<and>
                sorted_wrt (\<lambda>a b. mins_played b \<le> mins_played a) s \<and>
                out = round_frame s \<and>
                groupby_sum keys df = Inr g \<and> mset s = mset g \<and>
                sorted (map (map cell_enc) (map gkey g)) \<and> distinct (map gkey g))"
proof -
  from assms(2) obtain g where g: "groupby_sum keys df = Inr g"
    "sum_sorted kind keys df = Inr (kind g)" "out = round_frame (kind g)"
    by (rule list_time_by_Inr)
  have s: "sorted_wrt (\<lambda>a b. mins_played b \<le> mins_played a) (kind g)"
    using assms(1) by (rule sorts_descD2)
  have "sorted_wrt (\<lambda>a b. mins_played b \<le> mins_played a) out"
    unfolding g(3) using s by (rule sorted_round_frame)
  moreover have "mset (kind g) = mset g" using assms(1) by (rule sorts_descD1)
  ultimately show ?thesis
    using g s groupby_sum_keys(1,2) [OF g(1)] by blast
qed

theorem sorted_by_minutes_witness:
  "sorts_desc insertion_desc \<and>
   list_time_by insertion_desc [''artist''] tie_plays = Inr
     [\<lparr>gkey = [Str ''A''], mins_played = 1, hours_played = 1 / 50, days_played = 0\<rparr>,
      \<lparr>gkey = [Str ''B''], mins_played = 1, hours_played = 1 / 50, days_played = 0\<rparr>] \<and>
   sorted_wrt (\<lambda>a b. mins_played b \<le> mins_played a)
     [\<lparr>gkey = [Str ''A''], mins_played = 1, hours_played = 1 / 50, days_played = 0\<rparr>,
      \<lparr>gkey = [Str ''B''], mins_played = 1, hours_played = 1 / 50, days_played = 0\<rparr>]"
  using sorted_by_minutes [OF sorts_desc_insertion tie_out] sorts_desc_insertion tie_out
  by blast

text \<open>
  Claim C4 as stated fails: the table meets artist B before artist A, both with one
  minute, and the aggregation lists A before B. The order of the rows of the table does
  not even reach the sort: the grouped frame is the same for the table read backwards.
\<close>

theorem encounter_order_counterexample:
  "getitem tie_plays ''artist'' = Inr [Str ''B'', Str ''A''] \<and>
   list_time_by_artist insertion_desc tie_plays = Inr
     [\<lparr>gkey = [Str ''A''], mins_played = 1, hours_played = 1 / 50, days_played = 0\<rparr>,
      \<lparr>gkey = [Str ''B''], mins_played = 1, hours_played = 1 / 50, days_played = 0\<rparr>] \<and>
   groupby_sum [''artist''] tie_plays =
     groupby_sum [''artist''] \<lparr>columns = columns tie_plays, rows = rev (rows tie_plays)\<rparr>"
  by code_simp

text \<open>
  Claim C9. The policy for missing keys is ``dropped''. In every aggregation, for any
  list of key columns, no output row has a missing key cell, and the output is the one
  obtained from the table without the rows that have a missing value in a key column;
  the same holds for the rows of the artist-by-year table. In the distinct count no
  year is missing, and the count of a year is the number of distinct values other than
  \<^verbatim>\<open>NaN\<close> among the artists of the rows of that year.
\<close>

theorem null_keys_dropped:
  assumes kind: "sorts_desc kind"
  shows "(\<forall>out. list_time_by kind keys df = Inr out \<longrightarrow>
            (\<forall>r \<in> set out. NaN \<notin> set (gkey r)) \<and>
            list_time_by kind keys (dropna_rows keys df) = Inr out) \<and>
         (\<forall>out. list_time_by_month kind df = Inr out \<longrightarrow>
            (\<forall>r \<in> set out. NaN \<notin> set (gkey r))) \<and>
         (\<forall>out. nunique_by_year df = Inr out \<longrightarrow>
            (\<exists>yi ai.
               get_loc (columns df) ''Year'' = Some yi \<and>
               get_loc (columns df) ''artist'' = Some ai \<and>
               (\<forall>(y, n) \<in> set out.
                  y \<noteq> NaN \<and>
                  n = card ((\<lambda>r. r ! ai) ` {r \<in> set (rows df). r ! yi = y} - {NaN}))))"
proof (intro conjI allI impI)
  fix out assume lt: "list_time_by kind keys df = Inr out"
  then obtain g where g: "groupby_sum keys df = Inr g" and out: "out = round_frame (kind g)"
    by (rule list_time_by_Inr)
  have "\<forall>r \<in> set (kind g). NaN \<notin> set (gkey r)"
    using groupby_sum_keys(3) [OF g] sorts_desc_set [OF kind, of g] by simp
  then show "\<forall>r \<in> set out. NaN \<notin> set (gkey r)"
    unfolding out by (auto elim!: in_round_frame)
  show "list_time_by kind keys (dropna_rows keys df) = Inr out"
    using groupby_sum_dropna_rows [OF g] out
    by (simp add: list_time_by_def sum_sorted_def)
next
  fix out assume "list_time_by_month kind df = Inr out"
  then have "\<forall>r \<in> set out. \<exists>a y. gkey r = [a, y] \<and> a \<noteq> NaN \<and> y \<noteq> NaN"
    using month_row [OF kind] by blast
  then show "\<forall>r \<in> set out. NaN \<notin> set (gkey r)" by fastforce
next
  fix out assume n: "nunique_by_year df = Inr out"
  from nunique_by_year_rows [OF n] obtain yi ai where
    yi: "get_loc (columns df) ''Year'' = Some yi"
    and ai: "get_loc (columns df) ''artist'' = Some ai"
    and e: "set (map fst out) = (\<lambda>r. r ! yi) ` set (rows df) - {NaN}"
    and c: "\<forall>(y, n) \<in> set out.
              n = card ((\<lambda>r. r ! ai) ` {r \<in> set (rows df). r ! yi = y} - {NaN})"
    by blast
  have "\<forall>(y, n) \<in> set out. y \<noteq> NaN" 
  proof safe
    fix n assume "(NaN, n) \<in> set out"
    then have "NaN \<in> set (map fst out)" by force
    then show False unfolding e by simp
  qed
  with c have "\<forall>(y, n) \<in> set out.
        y \<noteq> NaN \<and>
        n = card ((\<lambda>r. r ! ai) ` {r \<in> set (rows df). r ! yi = y} - {NaN})"
    by auto
  with yi ai show "\<exists>yi ai.
               get_loc (columns df) ''Year'' = Some yi \<and>
               get_loc (columns df) ''artist'' = Some ai \<and>
               (\<forall>(y, n) \<in> set out.
                  y \<noteq> NaN \<and>
                  n = card ((\<lambda>r. r ! ai) ` {r \<in> set (rows df). r ! yi = y} - {NaN}))"
    by blast
qed

theorem null_keys_dropped_witness:
  "sorts_desc insertion_desc \<and>
   getitem plays ''artist'' = Inr [Str ''Y'', Str ''X'', NaN, Str ''X'', Str ''Y''] \<and>
   list_time_by insertion_desc [''artist''] plays = Inr
    [\<lparr>gkey = [Str ''Y''], mins_played = 2, hours_played = 3 / 100, days_played = 0\<rparr>,
     \<lparr>gkey = [Str ''X''], mins_played = 1, hours_played = 1 / 50, days_played = 0\<rparr>] \<and>
   list_time_by insertion_desc [''artist''] (dropna_rows [''artist''] plays) = Inr
    [\<lparr>gkey = [Str ''Y''], mins_played = 2, hours_played = 3 / 100, days_played = 0\<rparr>,
     \<lparr>gkey = [Str ''X''], mins_played = 1, hours_played = 1 / 50, days_played = 0\<rparr>] \<and>
   nunique_by_year plays = Inr [(Int64 2022, 2), (Int64 2023, 2)] \<and>
   (2 :: nat) = card ((\<lambda>r. r ! 1) ` {r \<in> set (rows plays). r ! 0 = Int64 2022} - {NaN})"
proof -
  note inst = null_keys_dropped [OF sorts_desc_insertion, of "[''artist'']" plays]
  from inst plays_by_artist have a:
    "list_time_by insertion_desc [''artist''] (dropna_rows [''artist''] plays) = Inr
      [\<lparr>gkey = [Str ''Y''], mins_played = 2, hours_played = 3 / 100, days_played = 0\<rparr>,
       \<lparr>gkey = [Str ''X''], mins_played = 1, hours_played = 1 / 50, days_played = 0\<rparr>]"
    by blast
  from inst plays_counts obtain yi ai where
    yi: "get_loc (columns plays) ''Year'' = Some yi"
    and ai: "get_loc (columns plays) ''artist'' = Some ai"
    and c: "\<forall>(y, n) \<in> set [(Int64 2022, 2), (Int64 2023, 2)].
               y \<noteq> NaN \<and> n = card ((\<lambda>r. r ! ai) ` {r \<in> set (rows plays). r ! yi = y} - {NaN})"
    by blast
  from yi have "yi = 0" by (simp add: plays_def)
  moreover from ai have "ai = 1" by (simp add: plays_def)
  ultimately have b: "(2 :: nat) =
      card ((\<lambda>r. r ! 1) ` {r \<in> set (rows plays). r ! 0 = Int64 2022} - {NaN})"
    using c by simp
  show ?thesis
    by (intro conjI sorts_desc_insertion plays_artist plays_by_artist a plays_counts b)
qed

text \<open>
  Claim C8. The distinct count returns one row per year that occurs in the table, in
  ascending order of the year, and the count of a year is the number of distinct artist
  values among the rows of that year, missing values left out. For the
  events with artists A, B, A in 2022 and A, C in 2023 the rows are (2022, 2) and
  (2023, 2).
\<close>

theorem distinct_artists_per_year:
  "(nunique_by_year df = Inr out \<longrightarrow>
      (\<exists>yi ai.
         get_loc (columns df) ''Year'' = Some yi \<and>
         get_loc (columns df) ''artist'' = Some ai \<and>
         distinct (map fst out) \<and>
         sorted (map cell_enc (map fst out)) \<and>
         set (map fst out) = (\<lambda>r. r ! yi) ` set (rows df) - {NaN} \<and>
         (\<forall>(y, n) \<in> set out.
            n = card ((\<lambda>r. r ! ai) ` {r \<in> set (rows df). r ! yi = y} - {NaN})))) \<and>
   nunique_by_year events_by_year = Inr [(Int64 2022, 2), (Int64 2023, 2)]"
  using nunique_by_year_rows [of df out] events_counts by blast

theorem distinct_artists_per_year_witness:
  "nunique_by_year events_by_year = Inr [(Int64 2022, 2), (Int64 2023, 2)] \<and>
   (Int64 2022, 2) \<in> set [(Int64 2022, 2 :: nat), (Int64 2023, 2)] \<and>
   (2 :: nat) = card ((\<lambda>r. r ! 1) ` {r \<in> set (rows events_by_year). r ! 0 = Int64 2022} - {NaN})"
proof -
  from distinct_artists_per_year [of events_by_year "[(Int64 2022, 2), (Int64 2023, 2)]"]
  obtain yi ai where
    yi: "get_loc (columns events_by_year) ''Year'' = Some yi"
    and ai: "get_loc (columns events_by_year) ''artist'' = Some ai"
    and c: "\<forall>(y, n) \<in> set [(Int64 2022, 2), (Int64 2023, 2)].
            n = card ((\<lambda>r. r ! ai) ` {r \<in> set (rows events_by_year). r ! yi = y} - {NaN})"
    using events_counts by blast
  from yi have "yi = 0" by (simp add: events_by_year_def)
  moreover from ai have "ai = 1" by (simp add: events_by_year_def)
  ultimately have "(2 :: nat) =
      card ((\<lambda>r. r ! 1) ` {r \<in> set (rows events_by_year). r ! 0 = Int64 2022} - {NaN})"
    using c by simp
  then show ?thesis using events_counts by simp
qed



subsection \<open>The fifteen artists over time\<close>




text \<open>
  Claim C6, as amended. The sums of every group are computed at full precision from the
  unrounded durations of the rows; each table is rounded to two decimals once, right
  after its sort. The selection of the fifteen artists sorts and truncates the rounded
  all-time table, so it ranks by rounded minutes; only the selected artist names flow
  on. The artist-by-year values are full-precision sums over the rows of the full
  table, rounded afterwards.
\<close>

theorem rounding_before_selection:
  assumes kind: "sorts_desc kind" and top: "top_15_artists kind df = Inr top15"
  shows "\<exists>s l.
           sum_sorted kind [''artist''] df = Inr s \<and>
           (\<forall>r \<in> set s.
              sum_for_keys [''artist''] (gkey r) ''mins_played'' df = Inr (mins_played r) \<and>
              sum_for_keys [''artist''] (gkey r) ''hours_played'' df = Inr (hours_played r) \<and>
              sum_for_keys [''artist''] (gkey r) ''days_played'' df = Inr (days_played r)) \<and>
           list_time_by_artist kind df = Inr l \<and> l = round_frame s \<and>
           top15 = take 15 (kind l) \<and>
           (\<forall>out. list_time_by_month kind df = Inr out \<longrightarrow>
              (\<forall>r \<in> set out. \<exists>m h d.
                 sum_for_keys [''artist'', ''Year''] (gkey r) ''mins_played'' df = Inr m \<and>
                 mins_played r = round2 m \<and>
                 sum_for_keys [''artist'', ''Year''] (gkey r) ''hours_played'' df = Inr h \<and>
                 hours_played r = round2 h \<and>
                 sum_for_keys [''artist'', ''Year''] (gkey r) ''days_played'' df = Inr d \<and>
                 days_played r = round2 d))"
proof -
  from top obtain g where g: "groupby_sum [''artist''] df = Inr g"
    and s: "sum_sorted kind [''artist''] df = Inr (kind g)"
    and l: "list_time_by_artist kind df = Inr (round_frame (kind g))"
    and t15: "top15 = take 15 (kind (round_frame (kind g)))"
    by (rule top_15_artists_Inr)
  have exact: "\<forall>r \<in> set (kind g).
      sum_for_keys [''artist''] (gkey r) ''mins_played'' df = Inr (mins_played r) \<and>
      sum_for_keys [''artist''] (gkey r) ''hours_played'' df = Inr (hours_played r) \<and>
      sum_for_keys [''artist''] (gkey r) ''days_played'' df = Inr (days_played r)"
    using groupby_sum_row_sums(1,2,3) [OF g] sorts_desc_set [OF kind, of g] by simp
  have month: "\<forall>out. list_time_by_month kind df = Inr out \<longrightarrow>
      (\<forall>r \<in> set out. \<exists>m h d.
         sum_for_keys [''artist'', ''Year''] (gkey r) ''mins_played'' df = Inr m \<and>
         mins_played r = round2 m \<and>
         sum_for_keys [''artist'', ''Year''] (gkey r) ''hours_played'' df = Inr h \<and>
         hours_played r = round2 h \<and>
         sum_for_keys [''artist'', ''Year''] (gkey r) ''days_played'' df = Inr d \<and>
         days_played r = round2 d)"
  proof (intro allI impI ballI)
    fix out r
    assume "list_time_by_month kind df = Inr out" and "r \<in> set out"
    from month_row [OF kind this] show "\<exists>m h d.
         sum_for_keys [''artist'', ''Year''] (gkey r) ''mins_played'' df = Inr m \<and>
         mins_played r = round2 m \<and>
         sum_for_keys [''artist'', ''Year''] (gkey r) ''hours_played'' df = Inr h \<and>
         hours_played r = round2 h \<and>
         sum_for_keys [''artist'', ''Year''] (gkey r) ''days_played'' df = Inr d \<and>
         days_played r = round2 d"
      by (elim exE conjE) (simp only:, blast)
  qed
  show ?thesis
    by (intro exI [of _ "kind g"] exI [of _ "round_frame (kind g)"] conjI s exact l refl t15 month)
qed

theorem rounding_before_selection_witness:
  "sorts_desc insertion_desc \<and>
   top_15_artists insertion_desc close_plays = Inr
     [\<lparr>gkey = [Str ''X''], mins_played = 1, hours_played = 1 / 50, days_played = 0\<rparr>,
      \<lparr>gkey = [Str ''Y''], mins_played = 1, hours_played = 1 / 50, days_played = 0\<rparr>] \<and>
   list_time_by_artist insertion_desc close_plays = Inr (round_frame
     [\<lparr>gkey = [Str ''X''], mins_played = 251 / 250, hours_played = 251 / 15000,
       days_played = 251 / 360000\<rparr>,
      \<lparr>gkey = [Str ''Y''], mins_played = 1003 / 1000, hours_played = 1003 / 60000,
       days_played = 1003 / 1440000\<rparr>]) \<and>
   (\<exists>m. sum_for_keys [''artist'', ''Year''] [Str ''X'', Int64 2023] ''mins_played'' close_plays = Inr m \<and>
        (1 :: rat) = round2 m)"
proof -
  from rounding_before_selection [OF sorts_desc_insertion close_top15]
  obtain s l where s: "sum_sorted insertion_desc [''artist''] close_plays = Inr s"
    and l: "list_time_by_artist insertion_desc close_plays = Inr l" "l = round_frame s"
    and month: "\<forall>out. list_time_by_month insertion_desc close_plays = Inr out \<longrightarrow>
              (\<forall>r \<in> set out. \<exists>m h d.
                 sum_for_keys [''artist'', ''Year''] (gkey r) ''mins_played'' close_plays = Inr m \<and>
                 mins_played r = round2 m \<and>
                 sum_for_keys [''artist'', ''Year''] (gkey r) ''hours_played'' close_plays = Inr h \<and>
                 hours_played r = round2 h \<and>
                 sum_for_keys [''artist'', ''Year''] (gkey r) ''days_played'' close_plays = Inr d \<and>
                 days_played r = round2 d)"
    by blast
  from s have sv: "s = [\<lparr>gkey = [Str ''X''], mins_played = 251 / 250, hours_played = 251 / 15000,
       days_played = 251 / 360000\<rparr>,
      \<lparr>gkey = [Str ''Y''], mins_played = 1003 / 1000, hours_played = 1003 / 60000,
       days_played = 1003 / 1440000\<rparr>]"
    unfolding close_sum_sorted by (simp only: sum.inject)
  have a: "list_time_by_artist insertion_desc close_plays = Inr (round_frame
     [\<lparr>gkey = [Str ''X''], mins_played = 251 / 250, hours_played = 251 / 15000,
       days_played = 251 / 360000\<rparr>,
      \<lparr>gkey = [Str ''Y''], mins_played = 1003 / 1000, hours_played = 1003 / 60000,
       days_played = 1003 / 1440000\<rparr>])"
    using l unfolding sv by (simp only:)
  from month close_month have "\<forall>r \<in> set
     [\<lparr>gkey = [Str ''X'', Int64 2023], mins_played = 1, hours_played = 1 / 50, days_played = 0\<rparr>,
      \<lparr>gkey = [Str ''Y'', Int64 2023], mins_played = 1, hours_played = 1 / 50, days_played = 0\<rparr>].
      \<exists>m h d.
                 sum_for_keys [''artist'', ''Year''] (gkey r) ''mins_played'' close_plays = Inr m \<and>
                 mins_played r = round2 m \<and>
                 sum_for_keys [''artist'', ''Year''] (gkey r) ''hours_played'' close_plays = Inr h \<and>
                 hours_played r = round2 h \<and>
                 sum_for_keys [''artist'', ''Year''] (gkey r) ''days_played'' close_plays = Inr d \<and>
                 days_played r = round2 d"
    by blast
  then have b: "\<exists>m. sum_for_keys [''artist'', ''Year''] [Str ''X'', Int64 2023] ''mins_played'' close_plays = Inr m \<and>
        (1 :: rat) = round2 m"
    by fastforce
  show ?thesis by (intro conjI sorts_desc_insertion close_top15 a b)
qed

text \<open>
  Claim C6 as stated fails: with 1.004 minutes for X and 1.003 minutes for Y, the table
  that the selection sorts holds 1 for both.
\<close>

theorem rounded_selection_counterexample:
  "sum_sorted insertion_desc [''artist''] close_plays = Inr
     [\<lparr>gkey = [Str ''X''], mins_played = 251 / 250, hours_played = 251 / 15000,
       days_played = 251 / 360000\<rparr>,
      \<lparr>gkey = [Str ''Y''], mins_played = 1003 / 1000, hours_played = 1003 / 60000,
       days_played = 1003 / 1440000\<rparr>] \<and>
   list_time_by_artist insertion_desc close_plays = Inr
     [\<lparr>gkey = [Str ''X''], mins_played = 1, hours_played = 1 / 50, days_played = 0\<rparr>,
      \<lparr>gkey = [Str ''Y''], mins_played = 1, hours_played = 1 / 50, days_played = 0\<rparr>] \<and>
   top_15_artists insertion_desc close_plays = Inr
     (take 15 (insertion_desc
       [\<lparr>gkey = [Str ''X''], mins_played = 1, hours_played = 1 / 50, days_played = 0\<rparr>,
        \<lparr>gkey = [Str ''Y''], mins_played = 1, hours_played = 1 / 50, days_played = 0\<rparr>]))"
  by code_simp

end
